theory Spec2Isabelle
  imports Main "HOL-Library.AList"
begin

section \<open>Link error handling of conda-build (conda\_build/link.py)\<close>

text \<open>
  The module classifies the link errors found after a build into broken and external
  linkage, writes a report to standard error and ends the process unless link errors
  are ignored. The embedding follows the Python source method by method: the handler
  object is a record, every method takes the handler together with the text written to
  standard error so far and returns them updated, and a raised exception is a value.
\<close>

subsection \<open>Python containers and strings\<close>

text \<open>
  A Python \<open>set\<close> of strings is a duplicate-free list; \<open>set.add\<close> leaves a set that
  already holds the element as it is. Python does not fix the order in which a set is
  iterated, so wherever the source iterates a set the order is a parameter
  (\<open>set_order\<close>) and nothing below depends on it.
\<close>

definition set_add :: "string \<Rightarrow> string list \<Rightarrow> string list" where
  "set_add x xs = (if x \<in> set xs then xs else xs @ [x])"

text \<open>\<open>set(left)\<close>: the set of the elements of an iterable.\<close>

definition py_set :: "string list \<Rightarrow> string list" where
  "py_set xs = fold set_add xs []"

text \<open>\<open>s.intersection(right)\<close>.\<close>

definition intersection :: "string list \<Rightarrow> string list \<Rightarrow> string list" where
  "intersection s right = filter (\<lambda>x. x \<in> set right) s"

text \<open>
  A Python \<open>dict\<close> (Python 3.7 and later) keeps its keys in insertion order, and
  assigning to a key that is present replaces the value where the key stands. This is
  an association list with distinct keys under \<^const>\<open>AList.update\<close>.
\<close>

type_synonym dict = "(string \<times> string) list"

definition dict_setitem :: "string \<Rightarrow> string \<Rightarrow> dict \<Rightarrow> dict" where
  "dict_setitem k v d = AList.update k v d"

definition keys :: "dict \<Rightarrow> string list" where
  "keys d = map fst d"

definition items :: "dict \<Rightarrow> (string \<times> string) list" where
  "items d = d"

definition nl :: string where
  "nl = [CHR 0x0A]"

text \<open>\<open>sep.join(xs)\<close>.\<close>

fun join :: "string \<Rightarrow> string list \<Rightarrow> string" where
  "join sep [] = []"
| "join sep [x] = x"
| "join sep (x # y # ys) = x @ sep @ join sep (y # ys)"

subsection \<open>Link errors\<close>

text \<open>
  Modelled from the spec: the error classes of \<open>conda_build.dll\<close>, which the handler
  imports and tests with \<open>isinstance\<close>. \<open>BrokenLinkage\<close> names a library that could not
  be resolved; \<open>ExternalLinkage\<close> derives from it and also carries the path the library
  was resolved to. \<open>OtherError\<close> stands for an object of any other class in the error
  collection (the source asserts that there is none).
\<close>

datatype link_error =
    BrokenLinkage (dependent_library_name: string)
  | ExternalLinkage (dependent_library_name: string) (actual_link_target: string)
  | OtherError (dependent_library_name: string)

fun isinstance_ExternalLinkage :: "link_error \<Rightarrow> bool" where
  "isinstance_ExternalLinkage (ExternalLinkage n p) = True"
| "isinstance_ExternalLinkage e = False"

text \<open>\<open>ExternalLinkage\<close> is a subclass of \<open>BrokenLinkage\<close>.\<close>

fun isinstance_BrokenLinkage :: "link_error \<Rightarrow> bool" where
  "isinstance_BrokenLinkage (BrokenLinkage n) = True"
| "isinstance_BrokenLinkage (ExternalLinkage n p) = True"
| "isinstance_BrokenLinkage (OtherError n) = False"

text \<open>The exception object handed to the handler; only its \<open>errors\<close> are read.\<close>

datatype link_errors = LinkErrors (errors_of: "link_error list")

subsection \<open>Exceptions\<close>

text \<open>
  \<open>AssertionError\<close> carries the source line of the failed \<open>assert\<close> and the arguments
  of the exception: none for a bare \<open>assert\<close>, the triple
  \<open>(intersection, left, right)\<close> for the disjointness check. \<open>SystemExit\<close> is what
  \<open>sys.exit\<close> raises; it ends the process with the given status.
\<close>

datatype exn =
    AssertionError nat "(string list \<times> string list \<times> string list) option"
  | SystemExit int

subsection \<open>The handler\<close>

record ('m, 'r) handler =
  metadata :: 'm
  exception :: link_errors
  recipes :: 'r
  ignore_link_errors :: bool
  errors :: "link_error list"
  names :: "string list"
  broken :: "string list"
  extern :: dict
  new_library_recipe_needed :: "string list"
  recipe_needs_build_dependency_added :: "string list"
  error_messages :: "string list option"

text \<open>
  \<open>__init__\<close>. The attribute \<open>error_messages\<close> does not exist until
  \<open>_process_errors\<close> assigns it: \<open>None\<close>.
\<close>

definition init :: "'m \<Rightarrow> link_errors \<Rightarrow> 'r \<Rightarrow> bool \<Rightarrow> ('m, 'r) handler" where
  "init md exc rcps ignore =
     \<lparr> metadata = md, exception = exc, recipes = rcps, ignore_link_errors = ignore,
       errors = errors_of exc,
       names = [], broken = [], extern = [],
       new_library_recipe_needed = [], recipe_needs_build_dependency_added = [],
       error_messages = None \<rparr>"

text \<open>
  A method runs on the handler and on standard error, the list of the strings written
  so far. It returns \<open>None\<close> when it returns normally and \<open>Some e\<close> when it raises
  \<open>e\<close>, with the handler and standard error as they are at that moment.
\<close>

type_synonym ('m, 'r) state = "('m, 'r) handler \<times> string list"

definition final_message :: string where
  "final_message =
     nl @ ''See http://conda.pydata.org/docs/link-errors.html for more info.'' @ nl
     @ nl
     @ ''Tip: run `conda build --ignore-link-errors` to ignore these errors and'' @ nl
     @ ''build the package anyway.  Note that the resulting package will not work'' @ nl
     @ ''if you install it on a different system *unless* that system also has all'' @ nl
     @ ''of the libraries listed above installed.'' @ nl"

text \<open>The body of the loop over \<open>self.errors\<close> (lines 95 to 103).\<close>

definition categorize_step ::
  "link_error \<Rightarrow> ('m, 'r) handler \<Rightarrow> exn option \<times> ('m, 'r) handler" where
  "categorize_step error h =
     (let name = dependent_library_name error;
          h1 = h\<lparr>names := set_add name (names h)\<rparr>
      in if isinstance_ExternalLinkage error
         then (None, h1\<lparr>extern := dict_setitem name (actual_link_target error) (extern h1)\<rparr>)
         else if isinstance_BrokenLinkage error
         then (None, h1\<lparr>broken := set_add name (broken h1)\<rparr>)
         else (Some (AssertionError 102 None), h1))"

fun categorize_loop ::
  "link_error list \<Rightarrow> ('m, 'r) handler \<Rightarrow> exn option \<times> ('m, 'r) handler" where
  "categorize_loop [] h = (None, h)"
| "categorize_loop (error # rest) h =
     (case categorize_step error h of
        (None, h') \<Rightarrow> categorize_loop rest h'
      | (Some e, h') \<Rightarrow> (Some e, h'))"

definition assert_disjoint :: "string list \<Rightarrow> string list \<Rightarrow> exn option" where
  "assert_disjoint left right =
     (let inter = intersection (py_set left) right
      in if inter = [] then None
         else Some (AssertionError 107 (Some (inter, left, right))))"

text \<open>
  \<open>_categorize_errors\<close>. The \<open>if self.broken:\<close> block of lines 119 to 126 only binds a
  local name that is never read, so it leaves no trace here.
\<close>

definition categorize_errors ::
  "('m, 'r) state \<Rightarrow> exn option \<times> ('m, 'r) state" where
  "categorize_errors s =
     (case s of (h, err) \<Rightarrow>
        (case categorize_loop (errors h) h of
           (Some e, h1) \<Rightarrow> (Some e, (h1, err))
         | (None, h1) \<Rightarrow>
             (case assert_disjoint (keys (extern h1)) (broken h1) of
                Some e \<Rightarrow> (Some e, (h1, err))
              | None \<Rightarrow>
                  (None,
                   (h1\<lparr>new_library_recipe_needed :=
                         new_library_recipe_needed h1 @ map snd (items (extern h1))\<rparr>,
                    err)))))"

definition external_message :: "string list \<Rightarrow> string" where
  "external_message paths =
     ''Error: external linkage detected to libraries living outside the build root:''
     @ nl @ ''    '' @ join (nl @ ''   '') paths @ nl"

definition broken_message :: "string list \<Rightarrow> string" where
  "broken_message libs =
     ''Error: broken linkage detected for the following packages: '' @ join '', '' libs"

text \<open>\<open>_process_errors\<close>; \<open>set_order\<close> is the order in which \<open>self.broken\<close> is iterated.\<close>

definition process_errors ::
  "(string list \<Rightarrow> string list) \<Rightarrow> ('m, 'r) state \<Rightarrow> exn option \<times> ('m, 'r) state" where
  "process_errors set_order s =
     (case s of (h, err) \<Rightarrow>
        (let msgs0 = [];
             msgs1 = (if new_library_recipe_needed h \<noteq> []
                      then msgs0 @ [external_message (new_library_recipe_needed h)]
                      else msgs0);
             msgs = (if broken h \<noteq> []
                     then msgs1 @ [broken_message (set_order (broken h))]
                     else msgs1)
         in if msgs = [] then (Some (AssertionError 148 None), (h, err))
            else (None, (h\<lparr>error_messages := Some msgs\<rparr>, err @ [join nl msgs @ nl]))))"

text \<open>\<open>_finalize\<close>.\<close>

definition finalize :: "('m, 'r) state \<Rightarrow> exn option \<times> ('m, 'r) state" where
  "finalize s = (case s of (h, err) \<Rightarrow> (None, (h, err @ [final_message @ nl])))"

text \<open>\<open>handle\<close>: the three phases in order, then \<open>sys.exit(1)\<close> unless errors are ignored.\<close>

definition handle ::
  "(string list \<Rightarrow> string list) \<Rightarrow> ('m, 'r) state \<Rightarrow> exn option \<times> ('m, 'r) state" where
  "handle set_order s =
     (case categorize_errors s of
        (Some e, s1) \<Rightarrow> (Some e, s1)
      | (None, s1) \<Rightarrow>
          (case process_errors set_order s1 of
             (Some e, s2) \<Rightarrow> (Some e, s2)
           | (None, s2) \<Rightarrow>
               (case finalize s2 of
                  (Some e, s3) \<Rightarrow> (Some e, s3)
                | (None, s3) \<Rightarrow>
                    if \<not> ignore_link_errors (fst s3) then (Some (SystemExit 1), s3)
                    else (None, s3))))"

subsection \<open>Handlers as objects in a store\<close>














subsection \<open>What the scan leaves\<close>

text \<open>
  The records that take the first branch of the loop body, and the others. When every
  record is an instance of \<open>BrokenLinkage\<close> the loop runs to its end, and
  \<open>scanned errs h\<close> is the handler it leaves.
\<close>

abbreviation external_records :: "link_error list \<Rightarrow> link_error list" where
  "external_records errs \<equiv> filter isinstance_ExternalLinkage errs"

abbreviation broken_records :: "link_error list \<Rightarrow> link_error list" where
  "broken_records errs \<equiv> filter (\<lambda>e. \<not> isinstance_ExternalLinkage e) errs"

abbreviation scanned :: "link_error list \<Rightarrow> ('m, 'r) handler \<Rightarrow> ('m, 'r) handler" where
  "scanned errs h \<equiv>
     h\<lparr>names := fold set_add (map dependent_library_name errs) (names h),
       broken := fold set_add (map dependent_library_name (broken_records errs)) (broken h),
       extern := fold (\<lambda>e. dict_setitem (dependent_library_name e) (actual_link_target e))
                   (external_records errs) (extern h)\<rparr>"

section \<open>Properties\<close>

subsection \<open>Sets and dictionaries\<close>

lemma set_set_add: "set (set_add x xs) = insert x (set xs)"
  by (auto simp: set_add_def)

lemma distinct_set_add: "distinct xs \<Longrightarrow> distinct (set_add x xs)"
  by (simp add: set_add_def)

lemma set_fold_set_add: "set (fold set_add xs acc) = set acc \<union> set xs"
  by (induction xs arbitrary: acc) (auto simp: set_set_add)

lemma distinct_fold_set_add: "distinct acc \<Longrightarrow> distinct (fold set_add xs acc)"
  by (induction xs arbitrary: acc) (auto simp: distinct_set_add)

lemma set_py_set: "set (py_set xs) = set xs"
  by (simp add: py_set_def set_fold_set_add)

lemma distinct_py_set: "distinct (py_set xs)"
  by (simp add: py_set_def distinct_fold_set_add)

lemma keys_dict_setitem: "keys (dict_setitem k v d) = set_add k (keys d)"
  by (simp add: keys_def dict_setitem_def set_add_def update_keys)

lemma map_of_dict_setitem: "map_of (dict_setitem k v d) = (map_of d)(k \<mapsto> v)"
  by (simp add: dict_setitem_def update_conv')

lemma keys_fold_setitem:
  "keys (fold (\<lambda>e. dict_setitem (f e) (g e)) es d) = fold set_add (map f es) (keys d)"
  by (induction es arbitrary: d) (simp_all add: keys_dict_setitem)

lemma map_of_fold_setitem:
  "map_of (fold (\<lambda>e. dict_setitem (f e) (g e)) es d)
     = map_of (rev (map (\<lambda>e. (f e, g e)) es) @ d)"
  by (induction es arbitrary: d)
     (simp_all add: map_of_dict_setitem fun_eq_iff map_add_def split: option.splits)

lemma assert_disjoint_None:
  "assert_disjoint left right = None \<longleftrightarrow> set left \<inter> set right = {}"
  by (auto simp: assert_disjoint_def Let_def intersection_def set_py_set filter_empty_conv)

lemma assert_disjoint_Some:
  "set left \<inter> set right \<noteq> {} \<Longrightarrow>
   assert_disjoint left right
     = Some (AssertionError 107 (Some (intersection (py_set left) right, left, right)))
   \<and> set (intersection (py_set left) right) = set left \<inter> set right"
  by (auto simp: assert_disjoint_def Let_def intersection_def set_py_set filter_empty_conv)

text \<open>\<open>py_set\<close> keeps the first occurrence of every element, in order.\<close>

lemma remdups_snoc: "remdups (ys @ [x]) = remdups (filter (\<lambda>y. y \<noteq> x) ys) @ [x]"
  by (induction ys) auto

lemma fold_set_add_first_seen:
  "fold set_add xs acc = acc @ rev (remdups (rev (filter (\<lambda>x. x \<notin> set acc) xs)))"
proof (induction xs arbitrary: acc)
  case Nil
  then show ?case by simp
next
  case (Cons x xs)
  show ?case
  proof (cases "x \<in> set acc")
    case True
    then show ?thesis using Cons.IH[of acc] by (simp add: set_add_def)
  next
    case False
    have "filter (\<lambda>y. y \<notin> set (acc @ [x])) xs = filter (\<lambda>y. y \<noteq> x) (filter (\<lambda>y. y \<notin> set acc) xs)"
      by (induction xs) auto
    then show ?thesis using False Cons.IH[of "acc @ [x]"]
      by (simp add: set_add_def remdups_snoc rev_filter)
  qed
qed

lemma py_set_first_seen: "py_set xs = rev (remdups (rev xs))"
  by (simp add: py_set_def fold_set_add_first_seen)

lemma map_of_rev_last:
  assumes "\<exists>e\<in>set es. f e = k"
  shows "map_of (rev (map (\<lambda>e. (f e, g e)) es)) k = Some (g (last (filter (\<lambda>e. f e = k) es)))"
  using assms
proof (induction es)
  case Nil
  then show ?case by simp
next
  case (Cons e es)
  show ?case
  proof (cases "\<exists>e\<in>set es. f e = k")
    case True
    then have "filter (\<lambda>e. f e = k) es \<noteq> []" by (simp add: filter_empty_conv)
    with Cons.IH[OF True] show ?thesis by (simp add: map_add_def)
  next
    case False
    then have "k \<notin> fst ` set (rev (map (\<lambda>e. (f e, g e)) es))" by force
    then have n: "map_of (rev (map (\<lambda>e. (f e, g e)) es)) k = None"
      by (rule map_of_eq_None_iff[THEN iffD2])
    from False have fl: "filter (\<lambda>e. f e = k) es = []" by (simp add: filter_empty_conv)
    from False Cons.prems have "f e = k" by auto
    with n fl show ?thesis by (simp add: map_add_def)
  qed
qed

lemma distinct_keys_one_entry:
  "distinct (map fst d) \<Longrightarrow> k \<in> fst ` set d \<Longrightarrow> length (filter (\<lambda>p. fst p = k) d) = 1"
proof (induction d)
  case Nil
  then show ?case by simp
next
  case (Cons p d)
  show ?case
  proof (cases "fst p = k")
    case True
    with Cons.prems have "k \<notin> fst ` set d" by auto
    then have "filter (\<lambda>p. fst p = k) d = []" by (auto simp: filter_empty_conv)
    with True show ?thesis by simp
  next
    case False
    with Cons show ?thesis by auto
  qed
qed

subsection \<open>The scan of the error collection\<close>

lemma categorize_loop_ok:
  "\<forall>e\<in>set es. isinstance_BrokenLinkage e \<Longrightarrow> categorize_loop es h = (None, scanned es h)"
  by (induction es arbitrary: h) (simp_all add: categorize_step_def Let_def)

lemma categorize_loop_fail:
  "\<not> (\<forall>e\<in>set es. isinstance_BrokenLinkage e) \<Longrightarrow>
   \<exists>h'. categorize_loop es h = (Some (AssertionError 102 None), h')
        \<and> new_library_recipe_needed h' = new_library_recipe_needed h
        \<and> error_messages h' = error_messages h"
proof (induction es arbitrary: h)
  case Nil
  then show ?case by simp
next
  case (Cons e es)
  show ?case
  proof (cases "isinstance_BrokenLinkage e")
    case False
    then have "\<not> isinstance_ExternalLinkage e" by (cases e) auto
    with False show ?thesis by (simp add: categorize_step_def Let_def)
  next
    case True
    with Cons.prems have "\<not> (\<forall>e\<in>set es. isinstance_BrokenLinkage e)" by simp
    from Cons.IH[OF this, of "snd (categorize_step e h)"]
    obtain h' where h':
      "categorize_loop es (snd (categorize_step e h)) = (Some (AssertionError 102 None), h')"
      "new_library_recipe_needed h' = new_library_recipe_needed (snd (categorize_step e h))"
      "error_messages h' = error_messages (snd (categorize_step e h))"
      by blast
    have st: "fst (categorize_step e h) = None"
      "new_library_recipe_needed (snd (categorize_step e h)) = new_library_recipe_needed h"
      "error_messages (snd (categorize_step e h)) = error_messages h"
      using True by (simp_all add: categorize_step_def Let_def)
    have "categorize_loop (e # es) h = categorize_loop es (snd (categorize_step e h))"
      using st(1) by (cases "categorize_step e h") simp
    with h' st show ?thesis by simp
  qed
qed

text \<open>The three ways \<open>_categorize_errors\<close> can end.\<close>

lemma categorize_errors_cases:
  fixes h :: "('m, 'r) handler"
  shows "categorize_errors (h, err) =
     (if \<not> (\<forall>e\<in>set (errors h). isinstance_BrokenLinkage e)
      then (Some (AssertionError 102 None), (snd (categorize_loop (errors h) h), err))
      else if set (keys (extern (scanned (errors h) h))) \<inter> set (broken (scanned (errors h) h)) \<noteq> {}
      then (Some (AssertionError 107
              (Some (intersection (py_set (keys (extern (scanned (errors h) h))))
                       (broken (scanned (errors h) h)),
                     keys (extern (scanned (errors h) h)), broken (scanned (errors h) h)))),
            (scanned (errors h) h, err))
      else (None,
            ((scanned (errors h) h)\<lparr>new_library_recipe_needed :=
                new_library_recipe_needed h @ map snd (extern (scanned (errors h) h))\<rparr>, err)))"
proof (cases "\<forall>e\<in>set (errors h). isinstance_BrokenLinkage e")
  case False
  from categorize_loop_fail[OF False, of h] obtain h'
    where "categorize_loop (errors h) h = (Some (AssertionError 102 None), h')" by blast
  with False show ?thesis by (simp add: categorize_errors_def)
next
  case True
  note ok = categorize_loop_ok[OF True, of h]
  show ?thesis
  proof (cases "set (keys (extern (scanned (errors h) h))) \<inter> set (broken (scanned (errors h) h)) = {}")
    case disj: True
    then have "assert_disjoint (keys (extern (scanned (errors h) h))) (broken (scanned (errors h) h)) = None"
      by (simp only: assert_disjoint_None)
    with True disj ok show ?thesis
      by (simp add: categorize_errors_def items_def)
  next
    case ndisj: False
    from assert_disjoint_Some[OF ndisj] True ndisj ok show ?thesis
      by (simp add: categorize_errors_def)
  qed
qed

lemma scanned_init_fields:
  "names (scanned errs (init md exc rcps ignore)) = py_set (map dependent_library_name errs)"
  "broken (scanned errs (init md exc rcps ignore))
     = py_set (map dependent_library_name (broken_records errs))"
  "keys (extern (scanned errs (init md exc rcps ignore)))
     = py_set (map dependent_library_name (external_records errs))"
  "map_of (extern (scanned errs (init md exc rcps ignore))) =
     map_of (rev (map (\<lambda>e. (dependent_library_name e, actual_link_target e))
                   (external_records errs)))"
proof -
  have k: "keys [] = []" by (simp add: keys_def)
  show "names (scanned errs (init md exc rcps ignore)) = py_set (map dependent_library_name errs)"
    by (simp add: init_def py_set_def)
  show "broken (scanned errs (init md exc rcps ignore))
     = py_set (map dependent_library_name (broken_records errs))"
    by (simp add: init_def py_set_def)
  show "keys (extern (scanned errs (init md exc rcps ignore)))
     = py_set (map dependent_library_name (external_records errs))"
    by (simp add: init_def py_set_def keys_fold_setitem k)
  show "map_of (extern (scanned errs (init md exc rcps ignore))) =
     map_of (rev (map (\<lambda>e. (dependent_library_name e, actual_link_target e))
                   (external_records errs)))"
    by (simp add: init_def map_of_fold_setitem)
qed

text \<open>What a normal return of \<open>_categorize_errors\<close> on a new handler tells.\<close>

lemma categorize_errors_init_None:
  assumes "categorize_errors (init md (LinkErrors errs) rcps ignore, err) = (None, (h', err'))"
  shows "\<forall>e\<in>set errs. isinstance_BrokenLinkage e"
    and "err' = err"
    and "names h' = py_set (map dependent_library_name errs)"
    and "broken h' = py_set (map dependent_library_name (broken_records errs))"
    and "keys (extern h') = py_set (map dependent_library_name (external_records errs))"
    and "map_of (extern h') =
     map_of (rev (map (\<lambda>e. (dependent_library_name e, actual_link_target e))
                   (external_records errs)))"
    and "set (keys (extern h')) \<inter> set (broken h') = {}"
    and "new_library_recipe_needed h' = map snd (extern h')"
    and "ignore_link_errors h' = ignore"
    and "error_messages h' = None"
proof -
  let ?h = "init md (LinkErrors errs) rcps ignore"
  have e: "errors ?h = errs" by (simp add: init_def)
  have n: "new_library_recipe_needed ?h = []" "ignore_link_errors ?h = ignore"
    "error_messages ?h = None"
    by (simp_all add: init_def)
  from assms have all: "\<forall>e\<in>set errs. isinstance_BrokenLinkage e"
    and disj: "set (keys (extern (scanned errs ?h))) \<inter> set (broken (scanned errs ?h)) = {}"
    and h': "h' = (scanned errs ?h)\<lparr>new_library_recipe_needed :=
                new_library_recipe_needed ?h @ map snd (extern (scanned errs ?h))\<rparr>"
    and err: "err' = err"
    unfolding categorize_errors_cases[of ?h err] e by (auto split: if_splits)
  show "\<forall>e\<in>set errs. isinstance_BrokenLinkage e" by (rule all)
  show "err' = err" by (rule err)
  show "names h' = py_set (map dependent_library_name errs)"
    using scanned_init_fields(1)[of errs md "LinkErrors errs" rcps ignore] h' by simp
  show "broken h' = py_set (map dependent_library_name (broken_records errs))"
    using scanned_init_fields(2)[of errs md "LinkErrors errs" rcps ignore] h' by simp
  show "keys (extern h') = py_set (map dependent_library_name (external_records errs))"
    using scanned_init_fields(3)[of errs md "LinkErrors errs" rcps ignore] h' by simp
  show "map_of (extern h') =
     map_of (rev (map (\<lambda>e. (dependent_library_name e, actual_link_target e))
                   (external_records errs)))"
    using scanned_init_fields(4)[of errs md "LinkErrors errs" rcps ignore] h' by simp
  show "set (keys (extern h')) \<inter> set (broken h') = {}" using disj h' by simp
  show "new_library_recipe_needed h' = map snd (extern h')" using h' n by simp
  show "ignore_link_errors h' = ignore" using h' n by simp
  show "error_messages h' = None" using h' n by simp
qed









text \<open>The two ways \<open>_process_errors\<close> can end, and the messages it builds.\<close>

lemma process_errors_run:
  "process_errors set_order (h, err) =
     (if new_library_recipe_needed h = [] \<and> broken h = []
      then (Some (AssertionError 148 None), (h, err))
      else (None,
            (h\<lparr>error_messages := Some
                 ((if new_library_recipe_needed h \<noteq> []
                   then [external_message (new_library_recipe_needed h)] else [])
                  @ (if broken h \<noteq> [] then [broken_message (set_order (broken h))] else []))\<rparr>,
             err @ [join nl
                 ((if new_library_recipe_needed h \<noteq> []
                   then [external_message (new_library_recipe_needed h)] else [])
                  @ (if broken h \<noteq> [] then [broken_message (set_order (broken h))] else []))
                 @ nl])))"
  by (simp add: process_errors_def Let_def)

text \<open>The outcome of \<open>handle\<close> from the outcomes of its phases.\<close>

lemma handle_cases:
  "handle set_order s =
     (case categorize_errors s of
        (Some e, s1) \<Rightarrow> (Some e, s1)
      | (None, s1) \<Rightarrow>
          (case process_errors set_order s1 of
             (Some e, s2) \<Rightarrow> (Some e, s2)
           | (None, (h2, err2)) \<Rightarrow>
               ((if ignore_link_errors h2 then None else Some (SystemExit 1)),
                (h2, err2 @ [final_message @ nl]))))"
  by (simp add: handle_def finalize_def split: prod.splits option.splits)

text \<open>\<open>_categorize_errors\<close> on a new handler, from the error collection.\<close>

lemma scanned_init_sets:
  "set (keys (extern (scanned errs (init md exc rcps ignore))))
     = dependent_library_name ` {e \<in> set errs. isinstance_ExternalLinkage e}"
  "set (broken (scanned errs (init md exc rcps ignore)))
     = dependent_library_name ` {e \<in> set errs. \<not> isinstance_ExternalLinkage e}"
  by (simp_all only: scanned_init_fields set_py_set set_map set_filter)

lemma categorize_errors_init_ok:
  assumes "\<forall>e\<in>set errs. isinstance_BrokenLinkage e"
    and "\<forall>b\<in>set errs. \<forall>x\<in>set errs.
           \<not> isinstance_ExternalLinkage b \<and> isinstance_ExternalLinkage x
           \<longrightarrow> dependent_library_name b \<noteq> dependent_library_name x"
  shows "\<exists>h1. categorize_errors (init md (LinkErrors errs) rcps ignore, err) = (None, (h1, err))"
proof -
  let ?h = "init md (LinkErrors errs) rcps ignore"
  have e: "errors ?h = errs" by (simp add: init_def)
  have "set (keys (extern (scanned errs ?h))) \<inter> set (broken (scanned errs ?h)) = {}"
    unfolding scanned_init_sets using assms(2) by fastforce
  with assms(1) show ?thesis
    unfolding categorize_errors_cases[of ?h err] e by simp
qed

lemma categorize_errors_init_conflict:
  assumes "\<forall>e\<in>set errs. isinstance_BrokenLinkage e"
    and "b \<in> set errs" "x \<in> set errs"
    and "\<not> isinstance_ExternalLinkage b" "isinstance_ExternalLinkage x"
    and "dependent_library_name b = dependent_library_name x"
  shows "\<exists>inter h'.
      categorize_errors (init md (LinkErrors errs) rcps ignore, err)
        = (Some (AssertionError 107 (Some (inter, keys (extern h'), broken h'))), (h', err))
      \<and> dependent_library_name b \<in> set inter
      \<and> set inter = set (keys (extern h')) \<inter> set (broken h')
      \<and> new_library_recipe_needed h' = []
      \<and> error_messages h' = None"
proof -
  let ?h = "init md (LinkErrors errs) rcps ignore"
  let ?k = "scanned errs ?h"
  have e: "errors ?h = errs" by (simp add: init_def)
  have "dependent_library_name x
          \<in> dependent_library_name ` {e \<in> set errs. isinstance_ExternalLinkage e}"
    using assms(3,5) by blast
  moreover have "dependent_library_name b
          \<in> dependent_library_name ` {e \<in> set errs. \<not> isinstance_ExternalLinkage e}"
    using assms(2,4) by blast
  ultimately have mem: "dependent_library_name b \<in> set (keys (extern ?k)) \<inter> set (broken ?k)"
    unfolding scanned_init_sets using assms(6) by simp
  then have ne: "set (keys (extern ?k)) \<inter> set (broken ?k) \<noteq> {}" by blast
  have run: "categorize_errors (?h, err)
        = (Some (AssertionError 107
              (Some (intersection (py_set (keys (extern ?k))) (broken ?k),
                     keys (extern ?k), broken ?k))), (?k, err))"
    unfolding categorize_errors_cases[of ?h err] e using assms(1) ne by simp
  have i: "set (intersection (py_set (keys (extern ?k))) (broken ?k))
             = set (keys (extern ?k)) \<inter> set (broken ?k)"
    using assert_disjoint_Some[OF ne] by simp
  have f: "new_library_recipe_needed ?k = []" "error_messages ?k = None"
    by (simp_all add: init_def)
  from run i mem f show ?thesis by blast
qed

lemma categorize_errors_init_not_instance:
  assumes "\<not> (\<forall>e\<in>set errs. isinstance_BrokenLinkage e)"
  shows "\<exists>h'. categorize_errors (init md (LinkErrors errs) rcps ignore, err)
        = (Some (AssertionError 102 None), (h', err))
      \<and> new_library_recipe_needed h' = []
      \<and> error_messages h' = None"
proof -
  let ?h = "init md (LinkErrors errs) rcps ignore"
  have e: "errors ?h = errs" "new_library_recipe_needed ?h = []" "error_messages ?h = None"
    by (simp_all add: init_def)
  from categorize_loop_fail[OF assms, of ?h] e obtain h'
    where "categorize_loop (errors ?h) ?h = (Some (AssertionError 102 None), h')"
      "new_library_recipe_needed h' = []" "error_messages h' = None"
    by auto
  then show ?thesis by (simp add: categorize_errors_def)
qed

text \<open>The definitions that evaluate a run on a concrete error collection.\<close>

lemmas run_defs =
  handle_def categorize_errors_def process_errors_def finalize_def init_def
  categorize_step_def assert_disjoint_def intersection_def py_set_def set_add_def
  dict_setitem_def keys_def items_def Let_def

subsection \<open>The partition of the names\<close>

text \<open>
  Claim C1. When \<open>_categorize_errors\<close> returns normally on a handler built from any
  error collection, the set \<open>names\<close> is the union of \<open>broken\<close> and the keys of
  \<open>extern\<close>, and \<open>broken\<close> shares no element with the keys of \<open>extern\<close>.
\<close>

theorem categorize_names_partition:
  assumes "categorize_errors (init md (LinkErrors errs) rcps ignore, err) = (None, (h', err'))"
  shows "set (names h') = set (broken h') \<union> set (keys (extern h'))
         \<and> set (broken h') \<inter> set (keys (extern h')) = {}"
proof -
  note f = categorize_errors_init_None[OF assms]
  have "set (names h') = dependent_library_name ` set errs"
    by (simp add: f(3) set_py_set)
  moreover have "set (broken h')
      = dependent_library_name ` {e \<in> set errs. \<not> isinstance_ExternalLinkage e}"
    by (simp add: f(4) set_py_set)
  moreover have "set (keys (extern h'))
      = dependent_library_name ` {e \<in> set errs. isinstance_ExternalLinkage e}"
    by (simp add: f(5) set_py_set)
  ultimately have "set (names h') = set (broken h') \<union> set (keys (extern h'))"
    by auto
  with f(7) show ?thesis by auto
qed

theorem categorize_names_partition_witness:
  "\<exists>h'. categorize_errors
          (init () (LinkErrors [BrokenLinkage ''libfoo.so'',
                                ExternalLinkage ''libbar.so'' ''/opt/libs/libbar.so'']) () False, [])
        = (None, (h', []))
      \<and> names h' = [''libfoo.so'', ''libbar.so'']
      \<and> broken h' = [''libfoo.so'']
      \<and> keys (extern h') = [''libbar.so'']
      \<and> set (names h') = set (broken h') \<union> set (keys (extern h'))
      \<and> set (broken h') \<inter> set (keys (extern h')) = {}"
proof -
  obtain h' where run: "categorize_errors
          (init () (LinkErrors [BrokenLinkage ''libfoo.so'',
                                ExternalLinkage ''libbar.so'' ''/opt/libs/libbar.so'']) () False, [])
        = (None, (h', []))"
    and fields: "names h' = [''libfoo.so'', ''libbar.so'']" "broken h' = [''libfoo.so'']"
      "keys (extern h') = [''libbar.so'']"
    by (simp add: run_defs)
  from categorize_names_partition[OF run] run fields show ?thesis by blast
qed

subsection \<open>One record of the scan\<close>

text \<open>
  Claim C3. For every error record and every handler, the loop body adds the record's name
  to \<open>names\<close> and tests \<open>isinstance(error, ExternalLinkage)\<close> first. An external
  record (which is an instance of \<open>BrokenLinkage\<close> too) has its name mapped to its
  \<open>actual_link_target\<close> in \<open>extern\<close> and leaves \<open>broken\<close> as it is. A record that is
  not external but is an instance of \<open>BrokenLinkage\<close> has its name added to \<open>broken\<close>
  and leaves \<open>extern\<close> as it is. A record that is neither fails the assertion of line
  102, with \<open>broken\<close> and \<open>extern\<close> as they were.
\<close>

theorem categorize_step_variant_order:
  "set (names (snd (categorize_step e h))) = insert (dependent_library_name e) (set (names h))
   \<and> (isinstance_ExternalLinkage e \<longrightarrow>
        fst (categorize_step e h) = None
        \<and> map_of (extern (snd (categorize_step e h)))
            = (map_of (extern h))(dependent_library_name e \<mapsto> actual_link_target e)
        \<and> broken (snd (categorize_step e h)) = broken h)
   \<and> (\<not> isinstance_ExternalLinkage e \<and> isinstance_BrokenLinkage e \<longrightarrow>
        fst (categorize_step e h) = None
        \<and> set (broken (snd (categorize_step e h))) = insert (dependent_library_name e) (set (broken h))
        \<and> extern (snd (categorize_step e h)) = extern h)
   \<and> (\<not> isinstance_ExternalLinkage e \<and> \<not> isinstance_BrokenLinkage e \<longrightarrow>
        fst (categorize_step e h) = Some (AssertionError 102 None)
        \<and> broken (snd (categorize_step e h)) = broken h
        \<and> extern (snd (categorize_step e h)) = extern h)"
  by (simp add: categorize_step_def Let_def set_set_add map_of_dict_setitem)

theorem categorize_step_variant_order_witness:
  "isinstance_ExternalLinkage (ExternalLinkage ''libbar.so'' ''/opt/libs/libbar.so'')
   \<and> isinstance_BrokenLinkage (ExternalLinkage ''libbar.so'' ''/opt/libs/libbar.so'')
   \<and> fst (categorize_step (ExternalLinkage ''libbar.so'' ''/opt/libs/libbar.so'')
            (init () (LinkErrors []) () False)) = None
   \<and> map_of (extern (snd (categorize_step (ExternalLinkage ''libbar.so'' ''/opt/libs/libbar.so'')
            (init () (LinkErrors []) () False)))) ''libbar.so'' = Some ''/opt/libs/libbar.so''
   \<and> broken (snd (categorize_step (ExternalLinkage ''libbar.so'' ''/opt/libs/libbar.so'')
            (init () (LinkErrors []) () False))) = []
   \<and> \<not> isinstance_ExternalLinkage (BrokenLinkage ''libfoo.so'')
   \<and> isinstance_BrokenLinkage (BrokenLinkage ''libfoo.so'')
   \<and> fst (categorize_step (BrokenLinkage ''libfoo.so'') (init () (LinkErrors []) () False)) = None
   \<and> set (broken (snd (categorize_step (BrokenLinkage ''libfoo.so'')
            (init () (LinkErrors []) () False)))) = {''libfoo.so''}
   \<and> extern (snd (categorize_step (BrokenLinkage ''libfoo.so'')
            (init () (LinkErrors []) () False))) = []
   \<and> \<not> isinstance_ExternalLinkage (OtherError ''libx.so'')
   \<and> \<not> isinstance_BrokenLinkage (OtherError ''libx.so'')
   \<and> categorize_step (OtherError ''libx.so'') (init () (LinkErrors []) () False)
       = (Some (AssertionError 102 None), (init () (LinkErrors []) () False)\<lparr>names := [''libx.so'']\<rparr>)"
proof -
  have h0: "broken (init () (LinkErrors []) () False) = []"
    "extern (init () (LinkErrors []) () False) = []"
    "names (init () (LinkErrors []) () False) = []"
    by (simp_all add: init_def)
  have o: "categorize_step (OtherError ''libx.so'') (init () (LinkErrors []) () False)
       = (Some (AssertionError 102 None), (init () (LinkErrors []) () False)\<lparr>names := [''libx.so'']\<rparr>)"
    by (simp add: categorize_step_def Let_def set_add_def h0)
  show ?thesis
    using categorize_step_variant_order
            [of "ExternalLinkage ''libbar.so'' ''/opt/libs/libbar.so''" "init () (LinkErrors []) () False"]
          categorize_step_variant_order
            [of "BrokenLinkage ''libfoo.so''" "init () (LinkErrors []) () False"]
          categorize_step_variant_order
            [of "OtherError ''libx.so''" "init () (LinkErrors []) () False"]
          o
    by (simp add: h0)
qed

subsection \<open>The messages\<close>

text \<open>
  Claim C4. When the error collection is not empty and \<open>_categorize_errors\<close> has returned
  normally on the new handler, \<open>_process_errors\<close> returns normally with a non-empty list
  of messages, which it writes to standard error in one piece, joined by newlines and
  ended by a newline, and keeps in \<open>error_messages\<close>. On any handler, a normal return of
  \<open>_process_errors\<close> comes with a non-empty \<open>error_messages\<close> written in that way, and
  the only other outcome is the failed \<open>assert msgs\<close> of line 148, with nothing written.
\<close>

theorem process_errors_messages:
  "(errs \<noteq> [] \<and> categorize_errors (init md (LinkErrors errs) rcps ignore, err0) = (None, (h1, err1))
      \<longrightarrow> (\<exists>msgs. msgs \<noteq> []
             \<and> process_errors set_order (h1, err1)
                 = (None, (h1\<lparr>error_messages := Some msgs\<rparr>, err1 @ [join nl msgs @ nl]))))
   \<and> (process_errors set_order (h, err) = (None, (h', err'))
      \<longrightarrow> (\<exists>msgs. msgs \<noteq> [] \<and> error_messages h' = Some msgs \<and> err' = err @ [join nl msgs @ nl]))
   \<and> (fst (process_errors set_order (h, err)) \<noteq> None
      \<longrightarrow> process_errors set_order (h, err) = (Some (AssertionError 148 None), (h, err)))"
proof (intro conjI impI)
  assume a: "errs \<noteq> [] \<and> categorize_errors (init md (LinkErrors errs) rcps ignore, err0) = (None, (h1, err1))"
  then have run: "categorize_errors (init md (LinkErrors errs) rcps ignore, err0) = (None, (h1, err1))"
    and ne: "errs \<noteq> []" by simp_all
  note f = categorize_errors_init_None[OF run]
  have "set (broken h1) \<union> set (keys (extern h1)) = dependent_library_name ` set errs"
    by (auto simp: f(4) f(5) set_py_set)
  with ne have "broken h1 \<noteq> [] \<or> keys (extern h1) \<noteq> []"
    by (cases errs) auto
  then have ne': "\<not> (new_library_recipe_needed h1 = [] \<and> broken h1 = [])"
    by (auto simp: f(8) keys_def)
  let ?msgs = "(if new_library_recipe_needed h1 \<noteq> []
                   then [external_message (new_library_recipe_needed h1)] else [])
                  @ (if broken h1 \<noteq> [] then [broken_message (set_order (broken h1))] else [])"
  have "?msgs \<noteq> []" using ne' by simp
  moreover have "process_errors set_order (h1, err1)
                 = (None, (h1\<lparr>error_messages := Some ?msgs\<rparr>, err1 @ [join nl ?msgs @ nl]))"
    using ne' by (simp only: process_errors_run if_False)
  ultimately show "\<exists>msgs. msgs \<noteq> []
             \<and> process_errors set_order (h1, err1)
                 = (None, (h1\<lparr>error_messages := Some msgs\<rparr>, err1 @ [join nl msgs @ nl]))"
    by blast
next
  let ?msgs = "(if new_library_recipe_needed h \<noteq> []
                   then [external_message (new_library_recipe_needed h)] else [])
                  @ (if broken h \<noteq> [] then [broken_message (set_order (broken h))] else [])"
  assume a: "process_errors set_order (h, err) = (None, (h', err'))"
  then have ne: "\<not> (new_library_recipe_needed h = [] \<and> broken h = [])"
    by (auto simp: process_errors_run)
  then have "process_errors set_order (h, err)
                 = (None, (h\<lparr>error_messages := Some ?msgs\<rparr>, err @ [join nl ?msgs @ nl]))"
    by (simp only: process_errors_run if_False)
  with a have "h' = h\<lparr>error_messages := Some ?msgs\<rparr>" "err' = err @ [join nl ?msgs @ nl]"
    by simp_all
  moreover have "?msgs \<noteq> []" using ne by simp
  ultimately show "\<exists>msgs. msgs \<noteq> [] \<and> error_messages h' = Some msgs \<and> err' = err @ [join nl msgs @ nl]"
    by simp
next
  assume "fst (process_errors set_order (h, err)) \<noteq> None"
  then show "process_errors set_order (h, err) = (Some (AssertionError 148 None), (h, err))"
    by (simp add: process_errors_run split: if_splits)
qed

theorem process_errors_messages_witness:
  "\<exists>h1 msgs.
      [BrokenLinkage ''libfoo.so''] \<noteq> []
      \<and> categorize_errors (init () (LinkErrors [BrokenLinkage ''libfoo.so'']) () False, [])
          = (None, (h1, []))
      \<and> msgs \<noteq> []
      \<and> process_errors (\<lambda>xs. xs) (h1, [])
          = (None, (h1\<lparr>error_messages := Some msgs\<rparr>, [join nl msgs @ nl]))
      \<and> fst (process_errors (\<lambda>xs. xs) (init () (LinkErrors []) () False, [])) \<noteq> None
      \<and> process_errors (\<lambda>xs. xs) (init () (LinkErrors []) () False, [])
          = (Some (AssertionError 148 None), (init () (LinkErrors []) () False, []))"
proof -
  obtain h1 where run:
    "categorize_errors (init () (LinkErrors [BrokenLinkage ''libfoo.so'']) () False, [])
       = (None, (h1, []))"
    by (simp add: run_defs)
  have ne: "[BrokenLinkage ''libfoo.so''] \<noteq> []" by simp
  have e: "fst (process_errors (\<lambda>xs. xs) (init () (LinkErrors []) () False, [])) \<noteq> None"
    by (simp add: process_errors_def init_def)
  from process_errors_messages
         [of "[BrokenLinkage ''libfoo.so'']" "()" "()" False "[]" h1 "[]" "\<lambda>xs. xs"
             "init () (LinkErrors []) () False" "[]"]
       run ne e
  show ?thesis by auto
qed

subsection \<open>The recipes needed\<close>

text \<open>
  Claim C5. After a normal return of \<open>_categorize_errors\<close> on a new handler,
  \<open>new_library_recipe_needed\<close> is the list of the values of \<open>extern\<close> in the order of
  its items, so it is as long as \<open>extern\<close>, and that order is the order in which the
  names of the external records are first seen in the error collection
  (\<open>rev (remdups (rev xs))\<close> keeps the first occurrence of every element of \<open>xs\<close>).
\<close>

theorem new_library_recipe_needed_values:
  assumes "categorize_errors (init md (LinkErrors errs) rcps ignore, err) = (None, (h', err'))"
  shows "new_library_recipe_needed h' = map snd (items (extern h'))
         \<and> length (new_library_recipe_needed h') = length (extern h')
         \<and> keys (extern h')
             = rev (remdups (rev (map dependent_library_name
                                    (filter isinstance_ExternalLinkage errs))))
         \<and> new_library_recipe_needed h' = map (\<lambda>k. the (map_of (extern h') k)) (keys (extern h'))"
proof -
  note f = categorize_errors_init_None[OF assms]
  have d: "distinct (map fst (extern h'))"
    using f(5) distinct_py_set[of "map dependent_library_name (external_records errs)"]
    by (simp add: keys_def)
  have "map (\<lambda>k. the (map_of (extern h') k)) (map fst (extern h')) = map snd (extern h')"
    using d by (induction "extern h'") (auto simp: map_idI)
  then show ?thesis
    by (simp add: f(8) items_def f(5) py_set_first_seen keys_def[symmetric])
qed

theorem new_library_recipe_needed_values_witness:
  "\<exists>h'. categorize_errors
          (init () (LinkErrors [ExternalLinkage ''libb.so'' ''/opt/b1'',
                                BrokenLinkage ''libfoo.so'',
                                ExternalLinkage ''liba.so'' ''/opt/a'',
                                ExternalLinkage ''libb.so'' ''/opt/b2'']) () False, [])
        = (None, (h', []))
      \<and> extern h' = [(''libb.so'', ''/opt/b2''), (''liba.so'', ''/opt/a'')]
      \<and> new_library_recipe_needed h' = [''/opt/b2'', ''/opt/a'']
      \<and> new_library_recipe_needed h' = map snd (items (extern h'))
      \<and> length (new_library_recipe_needed h') = length (extern h')
      \<and> keys (extern h') = [''libb.so'', ''liba.so'']"
proof -
  obtain h' where run: "categorize_errors
          (init () (LinkErrors [ExternalLinkage ''libb.so'' ''/opt/b1'',
                                BrokenLinkage ''libfoo.so'',
                                ExternalLinkage ''liba.so'' ''/opt/a'',
                                ExternalLinkage ''libb.so'' ''/opt/b2'']) () False, [])
        = (None, (h', []))"
    and fields: "extern h' = [(''libb.so'', ''/opt/b2''), (''liba.so'', ''/opt/a'')]"
      "new_library_recipe_needed h' = [''/opt/b2'', ''/opt/a'']"
    by (simp add: run_defs)
  from new_library_recipe_needed_values[OF run] run fields show ?thesis
    by (simp add: keys_def items_def)
qed

subsection \<open>Several external records of one name\<close>

text \<open>
  Claim C9. After a normal return of \<open>_categorize_errors\<close> on a new handler, the keys of
  \<open>extern\<close> are distinct; for every external record of the collection, \<open>extern\<close> has
  exactly one item for its name, and the path of that item is the
  \<open>actual_link_target\<close> of the last external record of that name in the collection; and
  \<open>new_library_recipe_needed\<close> has as many elements as there are distinct names of
  external records, not as many as there are records.
\<close>

theorem extern_last_seen_per_name:
  assumes "categorize_errors (init md (LinkErrors errs) rcps ignore, err) = (None, (h', err'))"
  shows "distinct (keys (extern h'))
     \<and> (\<forall>x\<in>set errs. isinstance_ExternalLinkage x \<longrightarrow>
           length (filter (\<lambda>p. fst p = dependent_library_name x) (items (extern h'))) = 1
           \<and> map_of (extern h') (dependent_library_name x)
               = Some (actual_link_target
                   (last (filter (\<lambda>e. isinstance_ExternalLinkage e
                                       \<and> dependent_library_name e = dependent_library_name x) errs))))
     \<and> length (new_library_recipe_needed h')
         = card (dependent_library_name ` {e \<in> set errs. isinstance_ExternalLinkage e})"
proof -
  note f = categorize_errors_init_None[OF assms]
  have d: "distinct (keys (extern h'))"
    by (simp add: f(5) distinct_py_set)
  have s: "set (keys (extern h'))
      = dependent_library_name ` {e \<in> set errs. isinstance_ExternalLinkage e}"
    by (simp add: f(5) set_py_set)
  have one: "length (filter (\<lambda>p. fst p = dependent_library_name x) (items (extern h'))) = 1
        \<and> map_of (extern h') (dependent_library_name x)
               = Some (actual_link_target
                   (last (filter (\<lambda>e. isinstance_ExternalLinkage e
                                       \<and> dependent_library_name e = dependent_library_name x) errs)))"
    if x: "x \<in> set errs" "isinstance_ExternalLinkage x" for x
  proof
    from x s have "dependent_library_name x \<in> fst ` set (extern h')"
      by (auto simp: keys_def)
    with d show "length (filter (\<lambda>p. fst p = dependent_library_name x) (items (extern h'))) = 1"
      by (simp add: keys_def items_def distinct_keys_one_entry)
  next
    from x have "\<exists>e\<in>set (external_records errs). dependent_library_name e = dependent_library_name x"
      by auto
    from map_of_rev_last[OF this, of actual_link_target]
    show "map_of (extern h') (dependent_library_name x)
               = Some (actual_link_target
                   (last (filter (\<lambda>e. isinstance_ExternalLinkage e
                                       \<and> dependent_library_name e = dependent_library_name x) errs)))"
      by (simp add: f(6))
  qed
  have "length (new_library_recipe_needed h') = length (keys (extern h'))"
    by (simp add: f(8) keys_def)
  also have "\<dots> = card (set (keys (extern h')))"
    using d by (simp add: distinct_card)
  finally have "length (new_library_recipe_needed h')
         = card (dependent_library_name ` {e \<in> set errs. isinstance_ExternalLinkage e})"
    by (simp only: s)
  with d one show ?thesis by blast
qed

theorem extern_last_seen_per_name_witness:
  "\<exists>h'. categorize_errors
          (init () (LinkErrors [ExternalLinkage ''libb.so'' ''/opt/b1'',
                                ExternalLinkage ''liba.so'' ''/opt/a'',
                                ExternalLinkage ''libb.so'' ''/opt/b2'']) () False, [])
        = (None, (h', []))
      \<and> ExternalLinkage ''libb.so'' ''/opt/b1''
           \<in> set [ExternalLinkage ''libb.so'' ''/opt/b1'',
                  ExternalLinkage ''liba.so'' ''/opt/a'',
                  ExternalLinkage ''libb.so'' ''/opt/b2'']
      \<and> isinstance_ExternalLinkage (ExternalLinkage ''libb.so'' ''/opt/b1'')
      \<and> distinct (keys (extern h'))
      \<and> length (filter (\<lambda>p. fst p = ''libb.so'') (items (extern h'))) = 1
      \<and> map_of (extern h') ''libb.so'' = Some ''/opt/b2''
      \<and> length (new_library_recipe_needed h') = 2
      \<and> extern h' = [(''libb.so'', ''/opt/b2''), (''liba.so'', ''/opt/a'')]
      \<and> new_library_recipe_needed h' = [''/opt/b2'', ''/opt/a'']"
proof -
  obtain h' where run: "categorize_errors
          (init () (LinkErrors [ExternalLinkage ''libb.so'' ''/opt/b1'',
                                ExternalLinkage ''liba.so'' ''/opt/a'',
                                ExternalLinkage ''libb.so'' ''/opt/b2'']) () False, [])
        = (None, (h', []))"
    and fields: "extern h' = [(''libb.so'', ''/opt/b2''), (''liba.so'', ''/opt/a'')]"
      "new_library_recipe_needed h' = [''/opt/b2'', ''/opt/a'']"
    by (simp add: run_defs)
  from extern_last_seen_per_name[OF run] run fields show ?thesis
    by (simp add: keys_def items_def)
qed

subsection \<open>Two handlers on the same collection\<close>



subsection \<open>The closing message\<close>

text \<open>
  Claim C7. Whatever the handler holds (any error collection, any categories found, any
  value of \<open>ignore_link_errors\<close>) and whatever was written before, \<open>_finalize\<close> returns
  normally, leaves the handler as it is and writes one fixed text to standard error:
  \<open>final_message\<close> and a newline. That text names the documentation URL and the
  \<open>--ignore-link-errors\<close> option.
\<close>

theorem finalize_writes_final_message:
  "finalize (h, err) = (None, (h, err @ [final_message @ nl]))
   \<and> (\<exists>pre mid post.
        final_message =
          pre @ ''http://conda.pydata.org/docs/link-errors.html'' @ mid
          @ ''--ignore-link-errors'' @ post)"
proof
  show "finalize (h, err) = (None, (h, err @ [final_message @ nl]))"
    by (simp add: finalize_def)
next
  have "final_message =
          (nl @ ''See '') @ ''http://conda.pydata.org/docs/link-errors.html''
          @ ('' for more info.'' @ nl @ nl @ ''Tip: run `conda build '')
          @ ''--ignore-link-errors''
          @ (''` to ignore these errors and'' @ nl
             @ ''build the package anyway.  Note that the resulting package will not work'' @ nl
             @ ''if you install it on a different system *unless* that system also has all'' @ nl
             @ ''of the libraries listed above installed.'' @ nl)"
    by (simp add: final_message_def)
  then show "\<exists>pre mid post.
        final_message =
          pre @ ''http://conda.pydata.org/docs/link-errors.html'' @ mid
          @ ''--ignore-link-errors'' @ post"
    by blast
qed

subsection \<open>An empty error collection\<close>

text \<open>
  Claim C10. On a handler built from an empty error collection, \<open>_categorize_errors\<close>
  returns normally with every classification field still empty, and \<open>handle\<close> then
  raises the bare \<open>AssertionError\<close> of \<open>assert msgs\<close> (line 148) out of
  \<open>_process_errors\<close>: standard error is as it was before the call (neither an error
  message nor the closing message was written), \<open>error_messages\<close> is not assigned, and
  the outcome is neither a normal return nor \<open>SystemExit\<close>.
\<close>

theorem handle_empty_errors_assertion:
  "categorize_errors (init md (LinkErrors []) rcps ignore, err)
     = (None, (init md (LinkErrors []) rcps ignore, err))
   \<and> names (init md (LinkErrors []) rcps ignore) = []
   \<and> broken (init md (LinkErrors []) rcps ignore) = []
   \<and> extern (init md (LinkErrors []) rcps ignore) = []
   \<and> new_library_recipe_needed (init md (LinkErrors []) rcps ignore) = []
   \<and> handle set_order (init md (LinkErrors []) rcps ignore, err)
     = (Some (AssertionError 148 None), (init md (LinkErrors []) rcps ignore, err))"
  by (simp add: handle_def categorize_errors_def process_errors_def init_def
      assert_disjoint_def intersection_def py_set_def keys_def items_def)

subsection \<open>Return or exit\<close>

text \<open>
  Claim C2, as amended. Let the error collection be non-empty, every record an instance
  of \<open>BrokenLinkage\<close> (broken or external), and no name reported both by a broken and by
  an external record. Then \<open>handle\<close> on the new handler writes the error messages and
  then the closing message, and after that returns normally when \<open>ignore_link_errors\<close>
  is true and raises \<open>SystemExit(1)\<close> when it is false.
\<close>

theorem handle_exit_policy:
  assumes "errs \<noteq> []"
    and "\<forall>e\<in>set errs. isinstance_BrokenLinkage e"
    and "\<forall>b\<in>set errs. \<forall>x\<in>set errs.
           \<not> isinstance_ExternalLinkage b \<and> isinstance_ExternalLinkage x
           \<longrightarrow> dependent_library_name b \<noteq> dependent_library_name x"
  shows "\<exists>h' msgs. msgs \<noteq> [] \<and> error_messages h' = Some msgs
      \<and> handle set_order (init md (LinkErrors errs) rcps ignore, err)
          = ((if ignore then None else Some (SystemExit 1)),
             (h', err @ [join nl msgs @ nl, final_message @ nl]))"
proof -
  from categorize_errors_init_ok[OF assms(2,3), of md rcps ignore err] obtain h1
    where run: "categorize_errors (init md (LinkErrors errs) rcps ignore, err) = (None, (h1, err))"
    by blast
  note f = categorize_errors_init_None[OF run]
  have "set (broken h1) \<union> set (keys (extern h1)) = dependent_library_name ` set errs"
    by (auto simp: f(4) f(5) set_py_set)
  with assms(1) have "broken h1 \<noteq> [] \<or> keys (extern h1) \<noteq> []"
    by (cases errs) auto
  then have ne: "\<not> (new_library_recipe_needed h1 = [] \<and> broken h1 = [])"
    by (auto simp: f(8) keys_def)
  let ?msgs = "(if new_library_recipe_needed h1 \<noteq> []
                   then [external_message (new_library_recipe_needed h1)] else [])
                  @ (if broken h1 \<noteq> [] then [broken_message (set_order (broken h1))] else [])"
  have m: "?msgs \<noteq> []" using ne by simp
  have p: "process_errors set_order (h1, err)
             = (None, (h1\<lparr>error_messages := Some ?msgs\<rparr>, err @ [join nl ?msgs @ nl]))"
    using ne by (simp only: process_errors_run if_False)
  have "handle set_order (init md (LinkErrors errs) rcps ignore, err)
          = ((if ignore then None else Some (SystemExit 1)),
             (h1\<lparr>error_messages := Some ?msgs\<rparr>, err @ [join nl ?msgs @ nl, final_message @ nl]))"
    by (simp add: handle_cases run p f(9))
  moreover have "error_messages (h1\<lparr>error_messages := Some ?msgs\<rparr>) = Some ?msgs" by simp
  ultimately show ?thesis using m by blast
qed

theorem handle_exit_policy_witness:
  "(\<exists>h' msgs. msgs \<noteq> [] \<and> error_messages h' = Some msgs
      \<and> handle id (init () (LinkErrors [BrokenLinkage ''libfoo.so'',
                                         ExternalLinkage ''libbar.so'' ''/opt/libs/libbar.so''])
                     () True, [])
          = (None, (h', [join nl msgs @ nl, final_message @ nl])))
   \<and> (\<exists>h' msgs. msgs \<noteq> [] \<and> error_messages h' = Some msgs
      \<and> handle id (init () (LinkErrors [BrokenLinkage ''libfoo.so'',
                                         ExternalLinkage ''libbar.so'' ''/opt/libs/libbar.so''])
                     () False, [])
          = (Some (SystemExit 1), (h', [join nl msgs @ nl, final_message @ nl])))"
proof -
  let ?E = "[BrokenLinkage ''libfoo.so'', ExternalLinkage ''libbar.so'' ''/opt/libs/libbar.so'']"
  have a1: "?E \<noteq> []" by simp
  have a2: "\<forall>e\<in>set ?E. isinstance_BrokenLinkage e" by simp
  have a3: "\<forall>b\<in>set ?E. \<forall>x\<in>set ?E.
           \<not> isinstance_ExternalLinkage b \<and> isinstance_ExternalLinkage x
           \<longrightarrow> dependent_library_name b \<noteq> dependent_library_name x"
    by simp
  from handle_exit_policy[OF a1 a2 a3, of id "()" "()" True "[]"]
       handle_exit_policy[OF a1 a2 a3, of id "()" "()" False "[]"]
  show ?thesis by simp
qed

text \<open>
  The claim as written, for every non-empty collection, fails when a name is reported both
  as broken and as external: under either value of the flag \<open>handle\<close> raises the
  \<open>AssertionError\<close> of the disjointness check, so it neither returns normally nor raises
  \<open>SystemExit\<close>, and nothing has been written.
\<close>

theorem handle_exit_policy_counterexample:
  "fst (handle id (init () (LinkErrors [BrokenLinkage ''liba.so'',
                                        ExternalLinkage ''liba.so'' ''/opt/liba.so''])
                    () True, []))
     = Some (AssertionError 107 (Some ([''liba.so''], [''liba.so''], [''liba.so''])))
   \<and> fst (handle id (init () (LinkErrors [BrokenLinkage ''liba.so'',
                                        ExternalLinkage ''liba.so'' ''/opt/liba.so''])
                    () True, [])) \<noteq> None
   \<and> fst (handle id (init () (LinkErrors [BrokenLinkage ''liba.so'',
                                        ExternalLinkage ''liba.so'' ''/opt/liba.so''])
                    () False, []))
     = Some (AssertionError 107 (Some ([''liba.so''], [''liba.so''], [''liba.so''])))
   \<and> fst (handle id (init () (LinkErrors [BrokenLinkage ''liba.so'',
                                        ExternalLinkage ''liba.so'' ''/opt/liba.so''])
                    () False, [])) \<noteq> Some (SystemExit 1)
   \<and> snd (snd (handle id (init () (LinkErrors [BrokenLinkage ''liba.so'',
                                        ExternalLinkage ''liba.so'' ''/opt/liba.so''])
                    () False, []))) = []"
  by (simp add: run_defs)

subsection \<open>A name reported both as broken and as external\<close>

text \<open>
  Claim C6, as amended. Let some name be reported by a record that is not external and by
  an external record. When every record of the collection is an instance of
  \<open>BrokenLinkage\<close>, \<open>handle\<close> raises the \<open>AssertionError\<close> of the disjointness check
  (line 107) with the triple (intersection, keys of \<open>extern\<close>, \<open>broken\<close>), the
  intersection holding that name; standard error is as it was before the call, so no
  message was written and \<open>_finalize\<close> was not reached. When some record is not an
  instance of \<open>BrokenLinkage\<close>, \<open>handle\<close> raises the bare \<open>AssertionError\<close> of line 102
  instead, again with standard error as it was.
\<close>

theorem handle_conflicting_name:
  assumes "b \<in> set errs" and "x \<in> set errs"
    and "\<not> isinstance_ExternalLinkage b" and "isinstance_ExternalLinkage x"
    and "dependent_library_name b = dependent_library_name x"
  shows "((\<forall>e\<in>set errs. isinstance_BrokenLinkage e) \<longrightarrow>
           (\<exists>inter h'.
              handle set_order (init md (LinkErrors errs) rcps ignore, err)
                = (Some (AssertionError 107 (Some (inter, keys (extern h'), broken h'))), (h', err))
              \<and> dependent_library_name b \<in> set inter
              \<and> set inter = set (keys (extern h')) \<inter> set (broken h')
              \<and> error_messages h' = None))
       \<and> (\<not> (\<forall>e\<in>set errs. isinstance_BrokenLinkage e) \<longrightarrow>
           (\<exists>h'. handle set_order (init md (LinkErrors errs) rcps ignore, err)
                = (Some (AssertionError 102 None), (h', err))
              \<and> error_messages h' = None))"
proof (intro conjI impI)
  assume "\<forall>e\<in>set errs. isinstance_BrokenLinkage e"
  from categorize_errors_init_conflict[OF this assms, of md rcps ignore err]
  obtain inter h' where c:
    "categorize_errors (init md (LinkErrors errs) rcps ignore, err)
        = (Some (AssertionError 107 (Some (inter, keys (extern h'), broken h'))), (h', err))"
    "dependent_library_name b \<in> set inter"
    "set inter = set (keys (extern h')) \<inter> set (broken h')"
    "error_messages h' = None"
    by blast
  from c(1) have "handle set_order (init md (LinkErrors errs) rcps ignore, err)
        = (Some (AssertionError 107 (Some (inter, keys (extern h'), broken h'))), (h', err))"
    by (simp add: handle_cases)
  with c(2-4) show "\<exists>inter h'.
              handle set_order (init md (LinkErrors errs) rcps ignore, err)
                = (Some (AssertionError 107 (Some (inter, keys (extern h'), broken h'))), (h', err))
              \<and> dependent_library_name b \<in> set inter
              \<and> set inter = set (keys (extern h')) \<inter> set (broken h')
              \<and> error_messages h' = None"
    by blast
next
  assume "\<not> (\<forall>e\<in>set errs. isinstance_BrokenLinkage e)"
  from categorize_errors_init_not_instance[OF this, of md rcps ignore err]
  obtain h' where c:
    "categorize_errors (init md (LinkErrors errs) rcps ignore, err)
        = (Some (AssertionError 102 None), (h', err))"
    "error_messages h' = None"
    by blast
  from c(1) have "handle set_order (init md (LinkErrors errs) rcps ignore, err)
        = (Some (AssertionError 102 None), (h', err))"
    by (simp add: handle_cases)
  with c(2) show "\<exists>h'. handle set_order (init md (LinkErrors errs) rcps ignore, err)
                = (Some (AssertionError 102 None), (h', err))
              \<and> error_messages h' = None"
    by blast
qed

theorem handle_conflicting_name_witness:
  "(\<exists>inter h'.
      handle id (init () (LinkErrors [BrokenLinkage ''liba.so'',
                                      ExternalLinkage ''liba.so'' ''/opt/liba.so''])
                  () False, [])
        = (Some (AssertionError 107 (Some (inter, keys (extern h'), broken h'))), (h', []))
      \<and> ''liba.so'' \<in> set inter
      \<and> set inter = set (keys (extern h')) \<inter> set (broken h')
      \<and> error_messages h' = None)
   \<and> (\<exists>h'.
      handle id (init () (LinkErrors [OtherError ''libx.so'', BrokenLinkage ''liba.so'',
                                      ExternalLinkage ''liba.so'' ''/opt/liba.so''])
                  () False, [])
        = (Some (AssertionError 102 None), (h', []))
      \<and> error_messages h' = None)"
proof -
  let ?b = "BrokenLinkage ''liba.so''"
  let ?x = "ExternalLinkage ''liba.so'' ''/opt/liba.so''"
  let ?E1 = "[?b, ?x]"
  let ?E2 = "[OtherError ''libx.so'', ?b, ?x]"
  have b: "\<not> isinstance_ExternalLinkage ?b" and x: "isinstance_ExternalLinkage ?x"
    and n: "dependent_library_name ?b = dependent_library_name ?x"
    by simp_all
  have m1: "?b \<in> set ?E1" "?x \<in> set ?E1" and m2: "?b \<in> set ?E2" "?x \<in> set ?E2"
    by simp_all
  have all1: "\<forall>e\<in>set ?E1. isinstance_BrokenLinkage e"
    and all2: "\<not> (\<forall>e\<in>set ?E2. isinstance_BrokenLinkage e)"
    by simp_all
  from handle_conflicting_name[OF m1 b x n, of id "()" "()" False "[]"] all1
       handle_conflicting_name[OF m2 b x n, of id "()" "()" False "[]"] all2
  show ?thesis by simp
qed

text \<open>
  The claim as written, for every collection with such a name, fails when the collection
  also holds a record of another class: the exception raised is the bare
  \<open>AssertionError\<close> of line 102, which carries no data, raised at the first record.
\<close>

theorem handle_conflicting_name_counterexample:
  "fst (handle id (init () (LinkErrors [OtherError ''libx.so'', BrokenLinkage ''liba.so'',
                                        ExternalLinkage ''liba.so'' ''/opt/liba.so''])
                    () False, []))
     = Some (AssertionError 102 None)
   \<and> names (fst (snd (handle id (init () (LinkErrors [OtherError ''libx.so'',
                                        BrokenLinkage ''liba.so'',
                                        ExternalLinkage ''liba.so'' ''/opt/liba.so''])
                    () False, [])))) = [''libx.so'']
   \<and> snd (snd (handle id (init () (LinkErrors [OtherError ''libx.so'', BrokenLinkage ''liba.so'',
                                        ExternalLinkage ''liba.so'' ''/opt/liba.so''])
                    () False, []))) = []"
  by (simp add: run_defs)

end
